theory Spec2Isabelle
  imports Main "HOL-Library.FSet" "HOL-Library.AList" "HOL-Library.Char_ord"
    "HOL-Library.List_Lexorder"
begin

section \<open>Deployment model (type \<open>Deployment\<close> of package sous)\<close>

text \<open>
  Go strings are \<open>string\<close>. A \<open>time.Time\<close> is represented by its \<open>String()\<close>
  rendering, the only thing the status poller reads of it.
\<close>

type_synonym Time = string

definition Time_zero :: Time where
  "Time_zero = ''0001-01-01 00:00:00 +0000 UTC''"

record SourceLocation =
  Repo :: string
  Dir :: string

record SourceID =
  Location :: SourceLocation
  Version :: string

record ManifestID =
  Source :: SourceLocation
  MFlavor :: string

record DeploymentID =
  ManifestID :: ManifestID
  Cluster :: string

text \<open>
  \<open>ManifestKind\<close> is a Go string type; the named constants that the sources use are
  constructors, every other string is \<open>ManifestKindOther\<close>.
\<close>

datatype ManifestKind =
    ManifestKindService
  | ManifestKindScheduled
  | ManifestKindOnDemand
  | ManifestKindOther string

text \<open>
  \<open>Startup\<close> and \<open>Volumes\<close> are declared in files that are not covered here and are only ever
  compared; they stay opaque.
\<close>

typedecl Startup
typedecl Volumes

text \<open>
  Modelled from the spec: the \<open>DeployConfig\<close> struct is declared in a file not covered here. Its
  fields are the ones section 4.1 of the specification lists (resources, env,
  num_instances, startup, volumes, singularity_request_id) and the schedule that
  \<open>Deployment.Diff\<close> reads as \<open>d.Schedule\<close>.
\<close>

record DeployConfig =
  Resources :: "string \<rightharpoonup> string"
  Env :: "string \<rightharpoonup> string"
  NumInstances :: int
  Startup :: Startup
  Volumes :: Volumes
  SingularityRequestID :: string
  Schedule :: string

text \<open>
  \<open>OwnerSet\<close> is \<open>map[string]struct{}\<close>: a finite set of strings. Of the \<open>Deployment\<close>
  struct the fields \<open>Cluster\<close> (a pointer used for display only) and \<open>User\<close> are read by
  none of the functions below and are left out.
\<close>

type_synonym OwnerSet = "string fset"

record Deployment =
  DeployConfig :: DeployConfig
  ClusterName :: string
  SourceID :: SourceID
  Flavor :: string
  Owners :: OwnerSet
  Kind :: ManifestKind

definition Deployment_ManifestID :: "Deployment \<Rightarrow> ManifestID" where
  "Deployment_ManifestID d = \<lparr>Source = Location (SourceID d), MFlavor = Flavor d\<rparr>"

definition ID :: "Deployment \<Rightarrow> DeploymentID" where
  "ID d = \<lparr>ManifestID = Deployment_ManifestID d, Cluster = ClusterName d\<rparr>"

subsection \<open>Comparing deployments\<close>

text \<open>
  A panic is given by its message, a formatted message by its format string.
\<close>

datatype panic =
    NilPointerDereference
  | Panic string

text \<open>
  \<open>Differences\<close> is a list of formatted messages. A message is represented by what was
  found different and the values that the format verbs print.
\<close>

datatype Difference =
    DiffClusterName string string
  | DiffSourceID SourceID SourceID
  | DiffFlavor string string
  | DiffKind ManifestKind ManifestKind
  | DiffSchedule string string
  | DiffNumberOfOwners nat nat
  | DiffOwner string
  | DiffConfig string

type_synonym Differences = "Difference list"

text \<open>
  Modelled from the spec: \<open>SourceID.Equal\<close> is defined in a file not covered here. A \<open>SourceID\<close>
  is a location and a version, and equality is structural (section 3).
\<close>

definition SourceID_Equal :: "SourceID \<Rightarrow> SourceID \<Rightarrow> bool" where
  "SourceID_Equal sid o' = (Location sid = Location o' \<and> Version sid = Version o')"

text \<open>
  Modelled from the spec: \<open>DeployConfig.Diff\<close> is defined in a file not covered here. It compares
  the fields that section 4.1 lists for the deploy config: resources, env, num_instances,
  startup, volumes and singularity_request_id, and reports one difference for each field
  that differs.
\<close>

definition DeployConfig_Diff :: "DeployConfig \<Rightarrow> DeployConfig \<Rightarrow> bool \<times> Differences" where
  "DeployConfig_Diff dc o' =
     (let diffs =
        (if Resources dc \<noteq> Resources o' then [DiffConfig ''resources''] else []) @
        (if Env dc \<noteq> Env o' then [DiffConfig ''env''] else []) @
        (if NumInstances dc \<noteq> NumInstances o' then [DiffConfig ''number of instances''] else []) @
        (if Startup dc \<noteq> Startup o' then [DiffConfig ''startup''] else []) @
        (if Volumes dc \<noteq> Volumes o' then [DiffConfig ''volumes''] else []) @
        (if SingularityRequestID dc \<noteq> SingularityRequestID o'
         then [DiffConfig ''singularity request id''] else [])
      in (diffs \<noteq> [], diffs))"

text \<open>
  \<open>Deployment.Diff\<close>. The source appends to \<open>diffs\<close> in this order; the loop over
  \<open>d.Owners\<close> visits the owners in an order that Go leaves unspecified, here the sorted
  one.
\<close>

definition Diff :: "Deployment \<Rightarrow> Deployment \<Rightarrow> panic + (bool \<times> Differences)" where
  "Diff d o' =
     (if ID d \<noteq> ID o' then Inl (Panic ''attempt to compare deployment %q with %q'')
      else
        (let diffs =
           (if ClusterName d \<noteq> ClusterName o'
            then [DiffClusterName (ClusterName d) (ClusterName o')] else []) @
           (if \<not> SourceID_Equal (SourceID d) (SourceID o')
            then [DiffSourceID (SourceID d) (SourceID o')] else []) @
           (if Flavor d \<noteq> Flavor o' then [DiffFlavor (Flavor d) (Flavor o')] else []) @
           (if Kind d \<noteq> Kind o' then [DiffKind (Kind d) (Kind o')] else []) @
           (if Kind d = ManifestKindScheduled then
              (if Schedule (DeployConfig d) \<noteq> Schedule (DeployConfig o')
               then [DiffSchedule (Schedule (DeployConfig d)) (Schedule (DeployConfig o'))]
               else [])
            else []) @
           (if fcard (Owners d) \<noteq> fcard (Owners o')
            then [DiffNumberOfOwners (fcard (Owners d)) (fcard (Owners o'))] else []) @
           map DiffOwner
             (filter (\<lambda>owner. owner |\<notin>| Owners o') (sorted_list_of_fset (Owners d))) @
           snd (DeployConfig_Diff (DeployConfig d) (DeployConfig o'))
         in Inr (diffs \<noteq> [], diffs)))"

definition Equal :: "Deployment \<Rightarrow> Deployment \<Rightarrow> panic + bool" where
  "Equal d o' =
     (case Diff d o' of
        Inl p \<Rightarrow> Inl p
      | Inr (diff, _) \<Rightarrow> Inr (\<not> diff))"

section \<open>Errors\<close>

text \<open>
  Go \<open>error\<close> values: one made by \<open>fmt.Errorf\<close> (format and arguments), an
  \<open>ErrorWrapper\<close> struct with its embedded error (\<open>None\<close> for the zero value), and
  a pointer to a \<open>ResolveErrors\<close> value, given by its causes.
\<close>

datatype error =
    Errorf string "error list"
  | ErrorWrapper "error option"
  | ResolveErrorsError "error list"

type_synonym ErrorWrapper = error

section \<open>Resolve status (type \<open>ResolveStatus\<close> of package sous)\<close>

type_synonym ResolutionType = string

definition StableDiff :: ResolutionType where "StableDiff = ''unchanged''"
definition ComingDiff :: ResolutionType where "ComingDiff = ''coming''"
definition CreateDiff :: ResolutionType where "CreateDiff = ''created''"
definition ModifyDiff :: ResolutionType where "ModifyDiff = ''updated''"
definition DeleteDiff :: ResolutionType where "DeleteDiff = ''deleted''"

record DiffResolution =
  DeploymentID :: DeploymentID
  Desc :: ResolutionType
  Error :: "ErrorWrapper option"

record ResolveErrors =
  Causes :: "ErrorWrapper list"

record ResolveStatus =
  Started :: Time
  Finished :: Time
  Phase :: string
  Intended :: "Deployment list"
  Log :: "DiffResolution list"
  Errs :: ResolveErrors

section \<open>Status poller (lib/status_poller.go)\<close>

subsection \<open>Resolve states\<close>

text \<open>\<open>ResolveState\<close> is a Go \<open>int\<close>; the constants are numbered by \<open>iota\<close>.\<close>

type_synonym ResolveState = int

definition ResolveNotPolled :: ResolveState where "ResolveNotPolled = 0"
definition ResolveNotStarted :: ResolveState where "ResolveNotStarted = 1"
definition ResolveNotVersion :: ResolveState where "ResolveNotVersion = 2"
definition ResolvePendingRequest :: ResolveState where "ResolvePendingRequest = 3"
definition ResolveInProgress :: ResolveState where "ResolveInProgress = 4"
definition ResolveTasksStarting :: ResolveState where "ResolveTasksStarting = 5"
definition ResolveErredHTTP :: ResolveState where "ResolveErredHTTP = 6"
definition ResolveErredRez :: ResolveState where "ResolveErredRez = 7"
definition ResolveNotIntended :: ResolveState where "ResolveNotIntended = 8"
definition ResolveFailed :: ResolveState where "ResolveFailed = 9"
definition ResolveComplete :: ResolveState where "ResolveComplete = 10"
definition ResolveMAX :: ResolveState where "ResolveMAX = 11"
definition ResolveTERMINALS :: ResolveState where "ResolveTERMINALS = ResolveNotIntended"

subsection \<open>Poller data\<close>

record pollResult =
  url :: string
  stat :: ResolveState
  err :: "error option"
  resolveID :: string

record pollerState =
  LastResult :: pollResult
  LastCycle :: bool

text \<open>
  \<open>statePerCluster\<close> is a Go map from URL to \<open>*pollerState\<close>. It is an association
  list with one entry per key; the order of the list is the order in which
  \<open>range\<close> visits the map, which Go leaves unspecified.
\<close>

record StatusPoller =
  statePerCluster :: "(string \<times> pollerState) list"
  status :: ResolveState

subsection \<open>Aggregating the per-cluster states\<close>

text \<open>
  The loop of \<open>updateStatus\<close>, with the running value of the variable \<open>max\<close> as the
  argument \<open>mx\<close>. The \<open>break\<close> of the first-cycle branch ends the loop with the
  value assigned there.
\<close>

fun updateStatus_loop :: "ResolveState \<Rightarrow> (string \<times> pollerState) list \<Rightarrow> ResolveState" where
  "updateStatus_loop mx [] = mx"
| "updateStatus_loop mx ((u, s) # rest) =
     (if \<not> LastCycle s then
        (if ResolveTERMINALS < stat (LastResult s) then ResolveInProgress
         else stat (LastResult s))
      else updateStatus_loop
             (if stat (LastResult s) \<le> mx then stat (LastResult s) else mx) rest)"

definition updateStatus :: "StatusPoller \<Rightarrow> StatusPoller" where
  "updateStatus sp = sp\<lparr>status := updateStatus_loop ResolveMAX (statePerCluster sp)\<rparr>"

definition finished :: "StatusPoller \<Rightarrow> StatusPoller \<times> bool" where
  "finished sp = (let sp' = updateStatus sp in (sp', status sp' \<ge> ResolveTERMINALS))"



text \<open>
  \<open>nextSubStatus\<close>, given the \<open>update\<close> that it receives from the \<open>collect\<close> channel.
  The assignment to \<open>LastCycle\<close> stands after the \<open>panic\<close> and is never reached.
\<close>

definition nextSubStatus :: "StatusPoller \<Rightarrow> pollResult \<Rightarrow> panic + StatusPoller" where
  "nextSubStatus sp update =
     (case map_of (statePerCluster sp) (url update) of
        Some lastState \<Rightarrow>
          if resolveID (LastResult lastState) \<noteq> [] \<and>
             resolveID (LastResult lastState) \<noteq> resolveID update
          then Inl (Panic ''LAST_CYCLE_W00t'')
          else Inr (sp\<lparr>statePerCluster :=
                 AList.update (url update) (lastState\<lparr>LastResult := update\<rparr>)
                   (statePerCluster sp)\<rparr>)
      | None \<Rightarrow>
          Inr (sp\<lparr>statePerCluster :=
                 AList.update (url update) \<lparr>LastResult = update, LastCycle = False\<rparr>
                   (statePerCluster sp)\<rparr>))"

subsection \<open>Sub-pollers\<close>

text \<open>
  \<open>ResolveFilter\<close> is declared in a file not covered here. It is represented by the two
  methods that the poller calls on it.
\<close>

record ResolveFilter =
  FilterDeployment :: "Deployment \<Rightarrow> bool"
  FilterManifestID :: "ManifestID \<Rightarrow> bool"

record subPoller =
  ClusterName_sub :: string
  URL :: string
  locationFilter :: ResolveFilter
  idFilter :: ResolveFilter
  httpErrorCount :: int

record statusData =
  Deployments :: "Deployment list"
  Completed :: "ResolveStatus option"
  InProgress :: "ResolveStatus option"

text \<open>The loop of \<open>serverIntent\<close> over \<open>rstat.Intended\<close>, with the variable \<open>dep\<close>.\<close>

fun serverIntent_loop ::
  "ResolveFilter \<Rightarrow> Deployment option \<Rightarrow> Deployment list \<Rightarrow> Deployment option" where
  "serverIntent_loop rf dep [] = dep"
| "serverIntent_loop rf dep (d # ds) =
     (if FilterDeployment rf d then
        (case dep of
           Some _ \<Rightarrow> None
         | None \<Rightarrow> serverIntent_loop rf (Some d) ds)
      else serverIntent_loop rf dep ds)"

definition serverIntent :: "ResolveStatus option \<Rightarrow> ResolveFilter \<Rightarrow> Deployment option" where
  "serverIntent rstat rf =
     (case rstat of
        None \<Rightarrow> None
      | Some rs \<Rightarrow> serverIntent_loop rf None (Intended rs))"

fun diffResolutionFor_loop :: "ResolveFilter \<Rightarrow> DiffResolution list \<Rightarrow> DiffResolution option" where
  "diffResolutionFor_loop rf [] = None"
| "diffResolutionFor_loop rf (rez # rezs) =
     (if FilterManifestID rf (ManifestID (DeploymentID rez)) then Some rez
      else diffResolutionFor_loop rf rezs)"

definition diffResolutionFor :: "ResolveStatus option \<Rightarrow> ResolveFilter \<Rightarrow> DiffResolution option" where
  "diffResolutionFor rstat rf =
     (case rstat of
        None \<Rightarrow> None
      | Some rs \<Rightarrow> diffResolutionFor_loop rf (Log rs))"

definition stateFeatures ::
  "subPoller \<Rightarrow> ResolveStatus option \<Rightarrow> Deployment option \<times> DiffResolution option" where
  "stateFeatures sub rezState =
     (let current = diffResolutionFor rezState (locationFilter sub);
          srvIntent = serverIntent rezState (locationFilter sub)
      in (srvIntent, current))"

text \<open>
  \<open>computeState\<close>. \<open>IsTransientResolveError\<close> is defined in a file not covered here and
  is the parameter \<open>isTransient\<close>.
\<close>

definition computeState ::
  "(error \<Rightarrow> bool) \<Rightarrow> subPoller \<Rightarrow> Deployment option \<times> DiffResolution option \<Rightarrow>
   ResolveState \<times> error option" where
  "computeState isTransient sub features =
     (case features of (srvIntent, current) \<Rightarrow>
        (case srvIntent of
           None \<Rightarrow> (ResolveNotStarted, None)
         | Some intent \<Rightarrow>
             if \<not> FilterDeployment (idFilter sub) intent then (ResolveNotVersion, None)
             else
               (case current of
                  None \<Rightarrow> (ResolvePendingRequest, None)
                | Some cur \<Rightarrow>
                    (case Error cur of
                       Some e \<Rightarrow>
                         if isTransient e then (ResolveErredRez, Some e)
                         else (ResolveFailed, Some e)
                     | None \<Rightarrow>
                         if Desc cur = StableDiff then (ResolveComplete, None)
                         else if Desc cur = ComingDiff then (ResolveTasksStarting, None)
                         else (ResolveInProgress, None)))))"

text \<open>
  \<open>result\<close> reads \<open>data.InProgress.Started\<close> without a nil check: when \<open>InProgress\<close>
  is nil the dereference panics.
\<close>

definition result ::
  "subPoller \<Rightarrow> ResolveState \<Rightarrow> statusData \<Rightarrow> error option \<Rightarrow> panic + pollResult" where
  "result sub rs data e =
     (case InProgress data of
        None \<Rightarrow> Inl NilPointerDereference
      | Some ip \<Rightarrow> Inr \<lparr>url = URL sub, stat = rs, err = e, resolveID = Started ip\<rparr>)"

text \<open>The two backwards-compatibility assignments of \<open>pollOnce\<close>.\<close>

definition fillIntended :: "Deployment list \<Rightarrow> ResolveStatus option \<Rightarrow> ResolveStatus option" where
  "fillIntended deps rstat =
     (case rstat of
        None \<Rightarrow> None
      | Some rs \<Rightarrow>
          if length (Intended rs) = 0 then Some (rs\<lparr>Intended := deps\<rparr>) else Some rs)"

definition backwardsCompat :: "statusData \<Rightarrow> statusData" where
  "backwardsCompat data =
     (let data1 = data\<lparr>Completed := fillIntended (Deployments data) (Completed data)\<rparr>
      in data1\<lparr>InProgress := fillIntended (Deployments data1) (InProgress data1)\<rparr>)"

text \<open>
  \<open>pollOnce\<close>. The HTTP client is a package of its own: \<open>data\<close> is the
  \<open>statusData\<close> as \<open>Retrieve\<close> leaves it (the zero value where it fills nothing in)
  and \<open>rerr\<close> the error that it returns. The sub-poller is returned with its counter
  updated, also when the call panics. The counter is a Go \<open>int\<close>, reset or left behind
  long before it could overflow, and an integer here.
\<close>

definition pollOnce ::
  "(error \<Rightarrow> bool) \<Rightarrow> subPoller \<Rightarrow> statusData \<Rightarrow> error option \<Rightarrow>
   subPoller \<times> (panic + pollResult)" where
  "pollOnce isTransient sub data rerr =
     (case rerr of
        Some e \<Rightarrow>
          (let sub1 = sub\<lparr>httpErrorCount := httpErrorCount sub + 1\<rparr>
           in if httpErrorCount sub1 > 10
              then (sub1, result sub1 ResolveFailed data
                      (Some (Errorf ''more than 10 HTTP errors, giving up; latest error: %s'' [e])))
              else (sub1, result sub1 ResolveErredHTTP data (Some e)))
      | None \<Rightarrow>
          (let sub1 = sub\<lparr>httpErrorCount := 0\<rparr>;
               data1 = backwardsCompat data;
               (currentState, e) =
                  computeState isTransient sub1 (stateFeatures sub1 (InProgress data1))
           in if currentState = ResolveNotStarted \<or>
                 currentState = ResolveNotVersion \<or>
                 currentState = ResolvePendingRequest
              then (let (state, e') =
                          computeState isTransient sub1 (stateFeatures sub1 (Completed data1))
                    in (sub1, result sub1 state data1 e'))
              else (sub1, result sub1 currentState data1 e)))"

text \<open>The zero \<open>statusData\<close> that \<open>pollOnce\<close> hands to \<open>Retrieve\<close>.\<close>

definition statusData_zero :: statusData where
  "statusData_zero = \<lparr>Deployments = [], Completed = None, InProgress = None\<rparr>"

section \<open>Resolve recorder (type \<open>ResolveRecorder\<close> of package sous)\<close>

subsection \<open>The recorder and its methods\<close>

text \<open>
  The \<open>ResolveRecorder\<close> struct: the status, the contents of the buffered channel
  \<open>Log\<close> (capacity 10, oldest first) and whether it is closed, whether the channel
  \<open>finished\<close> is closed, and the final error. The mutex is not represented: each
  function below is what runs inside one \<open>read\<close> or \<open>write\<close>.
\<close>

record ResolveRecorder =
  rr_status :: ResolveStatus
  rr_Log :: "DiffResolution list"
  rr_LogClosed :: bool
  rr_finished :: bool
  rr_err :: "error option"

definition LogCapacity :: nat where
  "LogCapacity = 10"

text \<open>
  The recorder as \<open>NewResolveRecorder\<close> builds it before it starts the two goroutines.
  \<open>now\<close> is the value of \<open>time.Now()\<close> and \<open>intended\<close> the deployments of
  \<open>intended.Snapshot()\<close> in the order in which the loop visits them.
\<close>

definition newRecorder :: "Time \<Rightarrow> Deployment list \<Rightarrow> ResolveRecorder" where
  "newRecorder now intended =
     \<lparr>rr_status =
        \<lparr>Started = now, Finished = Time_zero, Phase = [], Intended = intended, Log = [],
         Errs = \<lparr>Causes = []\<rparr>\<rparr>,
      rr_Log = [], rr_LogClosed = False, rr_finished = False, rr_err = None\<rparr>"

definition ResolveStatus_Err :: "ResolveStatus \<Rightarrow> error option" where
  "ResolveStatus_Err rs =
     (if length (Causes (Errs rs)) > 0 then Some (ResolveErrorsError (Causes (Errs rs)))
      else None)"

definition Done :: "ResolveRecorder \<Rightarrow> bool" where
  "Done rr = rr_finished rr"

text \<open>
  \<open>Wait\<close> blocks on \<open>finished\<close>: the result is \<open>None\<close> as long as the channel is
  open, and the returned error (\<open>None\<close> for nil) once it is closed.
\<close>

definition Wait :: "ResolveRecorder \<Rightarrow> error option option" where
  "Wait rr =
     (if rr_finished rr then
        Some (case rr_err rr of
                Some e \<Rightarrow> Some e
              | None \<Rightarrow> ResolveStatus_Err (rr_status rr))
      else None)"

definition earlyExit :: "ResolveRecorder \<Rightarrow> bool" where
  "earlyExit rr = (rr_err rr \<noteq> None)"

definition setPhase :: "string \<Rightarrow> ResolveRecorder \<Rightarrow> ResolveRecorder" where
  "setPhase phase rr = rr\<lparr>rr_status := (rr_status rr)\<lparr>Phase := phase\<rparr>\<rparr>"

definition PhaseOf :: "ResolveRecorder \<Rightarrow> string" where
  "PhaseOf rr = Phase (rr_status rr)"

definition doneWithError :: "error \<Rightarrow> ResolveRecorder \<Rightarrow> ResolveRecorder" where
  "doneWithError e rr = rr\<lparr>rr_err := Some e\<rparr>"

text \<open>
  \<open>performPhase\<close>. The function \<open>f\<close> of the phase returns an error or nil and may
  use the recorder: it maps the recorder to its result and the recorder it leaves.
\<close>

definition performPhase ::
  "string \<Rightarrow> (ResolveRecorder \<Rightarrow> error option \<times> ResolveRecorder) \<Rightarrow> ResolveRecorder \<Rightarrow>
   ResolveRecorder" where
  "performPhase name f rr =
     (if earlyExit rr then rr
      else
        (case f (setPhase name rr) of
           (Some e, rr') \<Rightarrow> doneWithError e rr'
         | (None, rr') \<Rightarrow> rr'))"

text \<open>The \<open>write\<close> of the drain goroutine for one resolution received from \<open>Log\<close>.\<close>

definition recordResolution :: "DiffResolution \<Rightarrow> ResolveRecorder \<Rightarrow> ResolveRecorder" where
  "recordResolution rez rr =
     (let st = rr_status rr;
          st1 = st\<lparr>Log := Log st @ [rez]\<rparr>;
          st2 = (case Error rez of
                   Some e \<Rightarrow>
                     st1\<lparr>Errs := \<lparr>Causes = Causes (Errs st1) @ [ErrorWrapper (Some e)]\<rparr>\<rparr>
                 | None \<Rightarrow> st1)
      in rr\<lparr>rr_status := st2\<rparr>)"

text \<open>The \<open>write\<close> of the runner goroutine after the runner function has returned.\<close>

definition recordFinished :: "Time \<Rightarrow> ResolveRecorder \<Rightarrow> ResolveRecorder" where
  "recordFinished now rr =
     (let st = (rr_status rr)\<lparr>Finished := now\<rparr>
      in if rr_err rr = None then rr\<lparr>rr_status := st\<lparr>Phase := ''finished''\<rparr>\<rparr>
         else rr\<lparr>rr_status := st\<rparr>)"

subsection \<open>The two goroutines of a recorder\<close>

text \<open>
  What a runner function does with its recorder: it sends resolutions on \<open>Log\<close> and
  performs phases, where the function of a phase sends resolutions and returns an error
  or nil.
\<close>

datatype runner_op =
    Send DiffResolution
  | PerformPhase string "DiffResolution list" "error option"

text \<open>
  The runner goroutine is in the runner function, or has closed \<open>Log\<close>, or has made its
  last write. The drain goroutine waits on \<open>Log\<close>, or holds a resolution that it has
  received and not yet written, or has left its loop and closed \<open>finished\<close>.
\<close>

datatype runner_stage = Running | Closing | Returned

datatype drain_stage = Receiving | Holding DiffResolution | Drained

text \<open>
  \<open>frame\<close> is the function of the phase that the runner is in: the resolutions that
  it still sends and its result. \<open>todo\<close> is the rest of the runner function.
\<close>

record system =
  recorder :: ResolveRecorder
  frame :: "(DiffResolution list \<times> error option) option"
  todo :: "runner_op list"
  runner :: runner_stage
  drain :: drain_stage

text \<open>
  A send on \<open>Log\<close>: it blocks (\<open>None\<close>) while the buffer is full.
\<close>

definition sendLog :: "DiffResolution \<Rightarrow> ResolveRecorder \<Rightarrow> ResolveRecorder option" where
  "sendLog rez rr =
     (if length (rr_Log rr) < LogCapacity then Some (rr\<lparr>rr_Log := rr_Log rr @ [rez]\<rparr>)
      else None)"

text \<open>
  One step of the runner goroutine; a blocked goroutine leaves the system as it is.
  \<open>now\<close> is the clock, read by the last write.
\<close>

definition runner_step :: "Time \<Rightarrow> system \<Rightarrow> system" where
  "runner_step now s =
     (case runner s of
        Returned \<Rightarrow> s
      | Closing \<Rightarrow> s\<lparr>recorder := recordFinished now (recorder s), runner := Returned\<rparr>
      | Running \<Rightarrow>
          (case frame s of
             Some (rez # rezs, res) \<Rightarrow>
               (case sendLog rez (recorder s) of
                  None \<Rightarrow> s
                | Some rr \<Rightarrow> s\<lparr>recorder := rr, frame := Some (rezs, res)\<rparr>)
           | Some ([], Some e) \<Rightarrow> s\<lparr>recorder := doneWithError e (recorder s), frame := None\<rparr>
           | Some ([], None) \<Rightarrow> s\<lparr>frame := None\<rparr>
           | None \<Rightarrow>
               (case todo s of
                  Send rez # ops \<Rightarrow>
                    (case sendLog rez (recorder s) of
                       None \<Rightarrow> s
                     | Some rr \<Rightarrow> s\<lparr>recorder := rr, todo := ops\<rparr>)
                | PerformPhase name rezs res # ops \<Rightarrow>
                    if earlyExit (recorder s) then s\<lparr>todo := ops\<rparr>
                    else s\<lparr>recorder := setPhase name (recorder s),
                           frame := Some (rezs, res), todo := ops\<rparr>
                | [] \<Rightarrow> s\<lparr>recorder := (recorder s)\<lparr>rr_LogClosed := True\<rparr>,
                          runner := Closing\<rparr>)))"

text \<open>
  One step of the drain goroutine: it receives the oldest resolution, or writes the one
  that it holds, or, when \<open>Log\<close> is closed and empty, leaves the loop and closes
  \<open>finished\<close>.
\<close>

definition drain_step :: "system \<Rightarrow> system" where
  "drain_step s =
     (case drain s of
        Drained \<Rightarrow> s
      | Holding rez \<Rightarrow> s\<lparr>recorder := recordResolution rez (recorder s), drain := Receiving\<rparr>
      | Receiving \<Rightarrow>
          (case rr_Log (recorder s) of
             rez # rezs \<Rightarrow> s\<lparr>recorder := (recorder s)\<lparr>rr_Log := rezs\<rparr>, drain := Holding rez\<rparr>
           | [] \<Rightarrow>
               if rr_LogClosed (recorder s)
               then s\<lparr>recorder := (recorder s)\<lparr>rr_finished := True\<rparr>, drain := Drained\<rparr>
               else s))"

text \<open>A schedule says which goroutine takes each step.\<close>

datatype thread = Runner Time | Drain

fun step :: "thread \<Rightarrow> system \<Rightarrow> system" where
  "step (Runner now) s = runner_step now s"
| "step Drain s = drain_step s"

fun run :: "thread list \<Rightarrow> system \<Rightarrow> system" where
  "run [] s = s"
| "run (t # ts) s = run ts (step t s)"

text \<open>\<open>NewResolveRecorder(intended, f)\<close> at its return, \<open>prog\<close> being what \<open>f\<close> does.\<close>

definition NewResolveRecorder :: "Time \<Rightarrow> Deployment list \<Rightarrow> runner_op list \<Rightarrow> system" where
  "NewResolveRecorder now intended prog =
     \<lparr>recorder = newRecorder now intended, frame = None, todo = prog, runner = Running,
      drain = Receiving\<rparr>"

text \<open>
  What a runner function records when read on its own: the resolutions that it sends, in
  order, and the error with which it ends, where \<open>e\<close> is the error recorded before.
  A phase after a recorded error is skipped.
\<close>

fun runner_records :: "error option \<Rightarrow> runner_op list \<Rightarrow> DiffResolution list \<times> error option" where
  "runner_records e [] = ([], e)"
| "runner_records e (Send rez # ops) =
     (case runner_records e ops of (rezs, e') \<Rightarrow> (rez # rezs, e'))"
| "runner_records e (PerformPhase name body res # ops) =
     (case e of
        Some _ \<Rightarrow> runner_records e ops
      | None \<Rightarrow> (case runner_records res ops of (rezs, e') \<Rightarrow> (body @ rezs, e')))"

text \<open>The causes that the drain records for a list of resolutions.\<close>

fun causesOf :: "DiffResolution list \<Rightarrow> ErrorWrapper list" where
  "causesOf [] = []"
| "causesOf (rez # rezs) =
     (case Error rez of
        Some e \<Rightarrow> ErrorWrapper (Some e) # causesOf rezs
      | None \<Rightarrow> causesOf rezs)"

text \<open>
  The result that the specification gives for \<open>Wait\<close>: the error of the runner if it
  recorded one, else the errors accumulated from the resolutions, nil if there are none.
\<close>

definition spec_Wait_result :: "runner_op list \<Rightarrow> error option" where
  "spec_Wait_result prog =
     (case snd (runner_records None prog) of
        Some e \<Rightarrow> Some e
      | None \<Rightarrow>
          (case causesOf (fst (runner_records None prog)) of
             [] \<Rightarrow> None
           | c # cs \<Rightarrow> Some (ResolveErrorsError (c # cs))))"

text \<open>The name of the first phase of a runner function whose function returns an error.\<close>

fun failed_phase :: "runner_op list \<Rightarrow> string option" where
  "failed_phase [] = None"
| "failed_phase (Send rez # ops) = failed_phase ops"
| "failed_phase (PerformPhase name body res # ops) =
     (case res of
        Some _ \<Rightarrow> Some name
      | None \<Rightarrow> failed_phase ops)"

definition phase_at_return :: "runner_op list \<Rightarrow> string" where
  "phase_at_return prog =
     (case failed_phase prog of
        None \<Rightarrow> ''finished''
      | Some name \<Rightarrow> name)"

subsection \<open>Invariant and measure of the two goroutines\<close>

definition carried :: "system \<Rightarrow> DiffResolution list" where
  "carried s = (case drain s of Holding rez \<Rightarrow> [rez] | _ \<Rightarrow> [])"

definition frame_sends :: "system \<Rightarrow> DiffResolution list" where
  "frame_sends s = (case frame s of Some (rezs, res) \<Rightarrow> rezs | None \<Rightarrow> [])"

definition err_after_frame :: "system \<Rightarrow> error option" where
  "err_after_frame s =
     (case frame s of Some (rezs, res) \<Rightarrow> res | None \<Rightarrow> rr_err (recorder s))"

text \<open>
  Every resolution that the runner function sends is, in order, in the status log, held
  by the drain, in the channel, or still to be sent; the causes are those of the log; the
  channel \<open>Log\<close> is closed exactly when the runner function has returned, and
  \<open>finished\<close> exactly when the drain has left its loop, with \<open>Log\<close> closed and empty.
\<close>

definition recorder_inv :: "runner_op list \<Rightarrow> system \<Rightarrow> bool" where
  "recorder_inv prog s =
     (Log (rr_status (recorder s)) @ carried s @ rr_Log (recorder s) @ frame_sends s @
        fst (runner_records (err_after_frame s) (todo s)) = fst (runner_records None prog) \<and>
      snd (runner_records (err_after_frame s) (todo s)) = snd (runner_records None prog) \<and>
      (frame s = None \<or> (rr_err (recorder s) = None \<and> runner s = Running)) \<and>
      Causes (Errs (rr_status (recorder s))) = causesOf (Log (rr_status (recorder s))) \<and>
      (runner s = Running) = (\<not> rr_LogClosed (recorder s)) \<and>
      (runner s = Running \<or> (todo s = [] \<and> frame s = None)) \<and>
      rr_finished (recorder s) = (drain s = Drained) \<and>
      (drain s \<noteq> Drained \<or> (rr_LogClosed (recorder s) \<and> rr_Log (recorder s) = [])))"

text \<open>The phase with which the run will end, as the state determines it.\<close>

definition phase_inv :: "runner_op list \<Rightarrow> system \<Rightarrow> bool" where
  "phase_inv prog s =
     ((case runner s of
         Running \<Rightarrow>
           (case err_after_frame s of
              Some _ \<Rightarrow> PhaseOf (recorder s)
            | None \<Rightarrow> phase_at_return (todo s))
       | Closing \<Rightarrow>
           (if rr_err (recorder s) = None then ''finished'' else PhaseOf (recorder s))
       | Returned \<Rightarrow> PhaseOf (recorder s)) = phase_at_return prog \<and>
      (frame s = None \<or> (rr_err (recorder s) = None \<and> runner s = Running)))"

fun op_work :: "runner_op \<Rightarrow> nat" where
  "op_work (Send rez) = 3"
| "op_work (PerformPhase name body res) = 3 * length body + 2"

text \<open>A bound on the steps that the two goroutines still take.\<close>

definition work :: "system \<Rightarrow> nat" where
  "work s =
     (case runner s of Running \<Rightarrow> 2 | Closing \<Rightarrow> 1 | Returned \<Rightarrow> 0) +
     sum_list (map op_work (todo s)) +
     (case frame s of Some (rezs, res) \<Rightarrow> 3 * length rezs + 1 | None \<Rightarrow> 0) +
     2 * length (rr_Log (recorder s)) +
     (case drain s of Receiving \<Rightarrow> 1 | Holding rez \<Rightarrow> 2 | Drained \<Rightarrow> 0)"

subsection \<open>The status of a recorder in memory\<close>

text \<open>
  \<open>CurrentStatus\<close> copies slices, so what it shares with the recorder depends on where
  the slices point. Here the status is the struct as it lies in memory: a slice is the
  address of its backing array and its length (every slice of the recorder starts at
  the start of its array, and the capacity is the length of the array), and the store
  holds the backing arrays and the deployments that the elements of \<open>Intended\<close> point
  to. Addresses from \<open>nextAddr\<close> on are not allocated.
\<close>

type_synonym addr = nat

record slice =
  base :: addr
  len :: nat

record store =
  logArrays :: "addr \<Rightarrow> DiffResolution list"
  causeArrays :: "addr \<Rightarrow> ErrorWrapper list"
  intendedArrays :: "addr \<Rightarrow> addr list"
  deployments :: "addr \<Rightarrow> Deployment"
  nextAddr :: addr

record ResolveStatusRef =
  StartedRef :: Time
  FinishedRef :: Time
  PhaseRef :: string
  IntendedRef :: slice
  LogRef :: slice
  CausesRef :: slice

text \<open>The zero values with which \<open>make\<close> fills a new array.\<close>

definition DiffResolution_zero :: DiffResolution where
  "DiffResolution_zero =
     \<lparr>DeploymentID =
        \<lparr>ManifestID = \<lparr>Source = \<lparr>Repo = [], Dir = []\<rparr>, MFlavor = []\<rparr>, Cluster = []\<rparr>,
      Desc = [], Error = None\<rparr>"

definition ErrorWrapper_zero :: ErrorWrapper where
  "ErrorWrapper_zero = ErrorWrapper None"

text \<open>The elements of a slice.\<close>

definition readSlice :: "slice \<Rightarrow> (addr \<Rightarrow> 'a list) \<Rightarrow> 'a list" where
  "readSlice s arrays = take (len s) (arrays (base s))"

text \<open>\<open>make([]T, n)\<close> at the address \<open>a\<close>.\<close>

definition makeArray :: "'a \<Rightarrow> nat \<Rightarrow> addr \<Rightarrow> (addr \<Rightarrow> 'a list) \<Rightarrow> (addr \<Rightarrow> 'a list)" where
  "makeArray zero n a arrays = arrays(a := replicate n zero)"

text \<open>\<open>copy(dst, src)\<close>: the first \<open>min (len dst) (len src)\<close> elements.\<close>

definition copySlice :: "slice \<Rightarrow> slice \<Rightarrow> (addr \<Rightarrow> 'a list) \<Rightarrow> (addr \<Rightarrow> 'a list)" where
  "copySlice dst src arrays =
     (let n = min (len dst) (len src)
      in arrays(base dst := take n (arrays (base src)) @ drop n (arrays (base dst))))"

text \<open>
  \<open>append(s, x)\<close>: in place when the capacity allows, else into a new array at the
  address \<open>a\<close>, which the result says was used. The capacity of a new array is the
  runtime's choice; it doubles here.
\<close>

definition appendSlice ::
  "'a \<Rightarrow> slice \<Rightarrow> 'a \<Rightarrow> addr \<Rightarrow> (addr \<Rightarrow> 'a list) \<Rightarrow> slice \<times> (addr \<Rightarrow> 'a list) \<times> bool" where
  "appendSlice zero s x a arrays =
     (if len s < length (arrays (base s))
      then (s\<lparr>len := len s + 1\<rparr>, arrays(base s := (arrays (base s))[len s := x]), False)
      else
        (let newcap = (if len s = 0 then 1 else 2 * len s)
         in (\<lparr>base = a, len = len s + 1\<rparr>,
             arrays(a := take (len s) (arrays (base s)) @ [x] @
                         replicate (newcap - len s - 1) zero),
             True)))"

text \<open>
  \<open>CurrentStatus\<close>, inside its \<open>read\<close>: the struct copy \<open>rs = *rr.status\<close>, then a new
  array for \<open>rs.Log\<close> and one for \<open>rs.Errs.Causes\<close>, each filled by \<open>copy\<close>.
\<close>

definition CurrentStatus :: "store \<Rightarrow> ResolveStatusRef \<Rightarrow> ResolveStatusRef \<times> store" where
  "CurrentStatus h st =
     (let rs = st;
          a1 = nextAddr h;
          h1 = h\<lparr>logArrays := makeArray DiffResolution_zero (len (LogRef st)) a1 (logArrays h),
                 nextAddr := a1 + 1\<rparr>;
          rs1 = rs\<lparr>LogRef := \<lparr>base = a1, len = len (LogRef st)\<rparr>\<rparr>;
          h2 = h1\<lparr>logArrays := copySlice (LogRef rs1) (LogRef st) (logArrays h1)\<rparr>;
          a2 = nextAddr h2;
          h3 = h2\<lparr>causeArrays := makeArray ErrorWrapper_zero (len (CausesRef st)) a2 (causeArrays h2),
                  nextAddr := a2 + 1\<rparr>;
          rs2 = rs1\<lparr>CausesRef := \<lparr>base = a2, len = len (CausesRef st)\<rparr>\<rparr>;
          h4 = h3\<lparr>causeArrays := copySlice (CausesRef rs2) (CausesRef st) (causeArrays h3)\<rparr>
      in (rs2, h4))"

text \<open>
  The writes of the recorder to its status: the drain's for a resolution, \<open>setPhase\<close>,
  and the last write of the runner goroutine (\<open>noErr\<close> says whether \<open>rr.err\<close> is nil).
\<close>

datatype status_write =
    WriteResolution DiffResolution
  | WritePhase string
  | WriteFinished Time bool

definition writeResolution :: "DiffResolution \<Rightarrow> store \<times> ResolveStatusRef \<Rightarrow> store \<times> ResolveStatusRef" where
  "writeResolution rez hs =
     (case hs of (h, st) \<Rightarrow>
        (case appendSlice DiffResolution_zero (LogRef st) rez (nextAddr h) (logArrays h) of
           (s1, arrays1, used1) \<Rightarrow>
             (let h1 = h\<lparr>logArrays := arrays1,
                         nextAddr := (if used1 then nextAddr h + 1 else nextAddr h)\<rparr>;
                  st1 = st\<lparr>LogRef := s1\<rparr>
              in (case Error rez of
                    None \<Rightarrow> (h1, st1)
                  | Some e \<Rightarrow>
                      (case appendSlice ErrorWrapper_zero (CausesRef st1) (ErrorWrapper (Some e))
                              (nextAddr h1) (causeArrays h1) of
                         (s2, arrays2, used2) \<Rightarrow>
                           (h1\<lparr>causeArrays := arrays2,
                               nextAddr := (if used2 then nextAddr h1 + 1 else nextAddr h1)\<rparr>,
                            st1\<lparr>CausesRef := s2\<rparr>))))))"

fun apply_write :: "status_write \<Rightarrow> store \<times> ResolveStatusRef \<Rightarrow> store \<times> ResolveStatusRef" where
  "apply_write (WriteResolution rez) hs = writeResolution rez hs"
| "apply_write (WritePhase p) (h, st) = (h, st\<lparr>PhaseRef := p\<rparr>)"
| "apply_write (WriteFinished now noErr) (h, st) =
     (h, if noErr then st\<lparr>FinishedRef := now, PhaseRef := ''finished''\<rparr>
         else st\<lparr>FinishedRef := now\<rparr>)"

fun apply_writes :: "status_write list \<Rightarrow> store \<times> ResolveStatusRef \<Rightarrow> store \<times> ResolveStatusRef" where
  "apply_writes [] hs = hs"
| "apply_writes (w # ws) hs = apply_writes ws (apply_write w hs)"

text \<open>The value of a status in a store: what a deep comparison compares.\<close>

definition statusValue :: "store \<Rightarrow> ResolveStatusRef \<Rightarrow> ResolveStatus" where
  "statusValue h st =
     \<lparr>Started = StartedRef st, Finished = FinishedRef st, Phase = PhaseRef st,
      Intended = map (deployments h) (readSlice (IntendedRef st) (intendedArrays h)),
      Log = readSlice (LogRef st) (logArrays h),
      Errs = \<lparr>Causes = readSlice (CausesRef st) (causeArrays h)\<rparr>\<rparr>"

text \<open>
  The slices of a status lie in allocated memory and within their arrays.
\<close>

definition allocated :: "store \<Rightarrow> ResolveStatusRef \<Rightarrow> bool" where
  "allocated h st =
     (base (LogRef st) < nextAddr h \<and> base (CausesRef st) < nextAddr h \<and>
      len (LogRef st) \<le> length (logArrays h (base (LogRef st))) \<and>
      len (CausesRef st) \<le> length (causeArrays h (base (CausesRef st))))"

text \<open>
  A snapshot is apart from a status when its log and causes lie in allocated arrays
  that are not the arrays of the status.
\<close>

definition apart :: "store \<Rightarrow> ResolveStatusRef \<Rightarrow> ResolveStatusRef \<Rightarrow> bool" where
  "apart h snap st =
     (base (LogRef snap) < nextAddr h \<and> base (CausesRef snap) < nextAddr h \<and>
      base (LogRef snap) \<noteq> base (LogRef st) \<and> base (CausesRef snap) \<noteq> base (CausesRef st))"

text \<open>An assignment \<open>*p = d\<close> through a pointer to a deployment.\<close>

definition storeDeployment :: "addr \<Rightarrow> Deployment \<Rightarrow> store \<Rightarrow> store" where
  "storeDeployment p d h = h\<lparr>deployments := (deployments h)(p := d)\<rparr>"

section \<open>Inputs for the examples and the rules of the specification\<close>

subsection \<open>Example inputs\<close>

definition exampleConfig :: DeployConfig where
  "exampleConfig =
     \<lparr>Resources = Map.empty, Env = Map.empty, NumInstances = 2, Startup = undefined,
      Volumes = undefined, SingularityRequestID = [], Schedule = []\<rparr>"

definition exampleDeployment :: "string \<Rightarrow> Deployment" where
  "exampleDeployment v =
     \<lparr>DeployConfig = exampleConfig, ClusterName = ''c1'',
      SourceID = \<lparr>Location = \<lparr>Repo = ''github.com/x/a'', Dir = []\<rparr>, Version = v\<rparr>,
      Flavor = [], Owners = {|''alice''|}, Kind = ManifestKindService\<rparr>"








definition examplePollerState :: "string \<Rightarrow> ResolveState \<Rightarrow> string \<Rightarrow> bool \<Rightarrow> pollerState" where
  "examplePollerState u st rid lc =
     \<lparr>LastResult = \<lparr>url = u, stat = st, err = None, resolveID = rid\<rparr>, LastCycle = lc\<rparr>"


text \<open>One cluster in its first observed cycle.\<close>

definition exampleFirstCyclePoller :: "ResolveState \<Rightarrow> StatusPoller" where
  "exampleFirstCyclePoller st =
     \<lparr>statePerCluster =
        [(''http://c1.example'', examplePollerState ''http://c1.example'' st ''t1'' False)],
      status = ResolveNotPolled\<rparr>"

definition exampleError :: error where
  "exampleError = Errorf ''scheduler returned 503'' []"

definition exampleFailedResolution :: DiffResolution where
  "exampleFailedResolution =
     \<lparr>DeploymentID = ID (exampleDeployment ''1.1.0''), Desc = ''created'',
      Error = Some (ErrorWrapper (Some exampleError))\<rparr>"

text \<open>
  A runner function whose only phase sends one resolution with an error and returns nil,
  and a schedule that runs it to the end: the runner function, then the drain, then the
  last write of the runner goroutine.
\<close>

definition exampleRunner :: "runner_op list" where
  "exampleRunner = [PerformPhase ''resolving'' [exampleFailedResolution] None]"

definition exampleSchedule :: "thread list" where
  "exampleSchedule =
     [Runner ''t1'', Runner ''t1'', Runner ''t1'', Runner ''t1'', Drain, Drain, Drain,
      Runner ''t2'']"

text \<open>
  A runner function whose first phase returns an error, and a schedule that runs it to
  the end.
\<close>

definition exampleFailingRunner :: "runner_op list" where
  "exampleFailingRunner =
     [PerformPhase ''resolving'' [] (Some exampleError),
      PerformPhase ''condensing errors'' [] None]"

definition exampleFailingSchedule :: "thread list" where
  "exampleFailingSchedule =
     [Runner ''t1'', Runner ''t1'', Runner ''t1'', Runner ''t1'', Drain, Runner ''t2'']"

text \<open>
  A recorder's status in memory: one intended deployment, at address 0, with the array of
  \<open>Intended\<close> at address 1, one resolution in the log, whose array at address 2 has
  room for a second one, and its cause, at address 3.
\<close>

definition exampleStore :: store where
  "exampleStore =
     \<lparr>logArrays = (\<lambda>a. [])(2 := [exampleFailedResolution, DiffResolution_zero]),
      causeArrays = (\<lambda>a. [])(3 := [ErrorWrapper (Some (ErrorWrapper (Some exampleError)))]),
      intendedArrays = (\<lambda>a. [])(1 := [0]),
      deployments = (\<lambda>a. exampleDeployment ''1.0.0'')(0 := exampleDeployment ''1.1.0''),
      nextAddr = 4\<rparr>"

definition exampleWrites :: "status_write list" where
  "exampleWrites =
     [WriteResolution exampleFailedResolution, WritePhase ''condensing errors'',
      WriteFinished ''t9'' False]"

definition exampleStatusRef :: ResolveStatusRef where
  "exampleStatusRef =
     \<lparr>StartedRef = ''t0'', FinishedRef = Time_zero, PhaseRef = ''resolving'',
      IntendedRef = \<lparr>base = 1, len = 1\<rparr>, LogRef = \<lparr>base = 2, len = 1\<rparr>,
      CausesRef = \<lparr>base = 3, len = 1\<rparr>\<rparr>"


subsection \<open>The rules of the specification for the state of a sub-poller\<close>



section \<open>Properties of the status poller\<close>








text \<open>
  What the sub-poller finds in a snapshot: as server intent the intended deployment that
  passes the filter when there is exactly one, and none when there is no such deployment
  or more than one; as resolution the first one in the log whose manifest passes the
  filter.
\<close>

lemma serverIntent_loop_Some:
  "serverIntent_loop rf (Some x) ds = (if filter (FilterDeployment rf) ds = [] then Some x else None)"
  by (induction ds) simp_all

lemma serverIntent_exactly_one:
  "serverIntent (Some rs) rf =
     (case filter (FilterDeployment rf) (Intended rs) of
        [] \<Rightarrow> None
      | [d] \<Rightarrow> Some d
      | d # d' # ds \<Rightarrow> None)"
proof -
  have "serverIntent_loop rf None ds =
     (case filter (FilterDeployment rf) ds of
        [] \<Rightarrow> None
      | [d] \<Rightarrow> Some d
      | d # d' # ds \<Rightarrow> None)" for ds
    by (induction ds) (auto simp: serverIntent_loop_Some split: list.splits)
  then show ?thesis by (simp add: serverIntent_def)
qed

lemma diffResolutionFor_first:
  "diffResolutionFor (Some rs) rf =
     find (\<lambda>rez. FilterManifestID rf (ManifestID (DeploymentID rez))) (Log rs)"
proof -
  have "diffResolutionFor_loop rf rezs =
     find (\<lambda>rez. FilterManifestID rf (ManifestID (DeploymentID rez))) rezs" for rezs
    by (induction rezs) simp_all
  then show ?thesis by (simp add: diffResolutionFor_def)
qed













text \<open>
  How \<open>pollOnce\<close> counts HTTP errors when the \<open>statusData\<close> that \<open>Retrieve\<close> leaves
  does carry an in-progress status: the counter goes up by one and the result is
  \<open>ErrHTTP\<close>, or \<open>Failed\<close> once the counter is above 10; a successful request sets
  the counter to zero.
\<close>

lemma pollOnce_http_error_with_InProgress:
  "InProgress data = Some ip \<Longrightarrow>
   pollOnce t sub data (Some e) =
     (sub\<lparr>httpErrorCount := httpErrorCount sub + 1\<rparr>,
      Inr (if httpErrorCount sub + 1 > 10
           then \<lparr>url = URL sub, stat = ResolveFailed,
                  err = Some (Errorf ''more than 10 HTTP errors, giving up; latest error: %s'' [e]),
                  resolveID = Started ip\<rparr>
           else \<lparr>url = URL sub, stat = ResolveErredHTTP, err = Some e,
                  resolveID = Started ip\<rparr>))"
  by (simp add: pollOnce_def Let_def result_def)

lemma pollOnce_success_resets_counter:
  "httpErrorCount (fst (pollOnce t sub data None)) = 0"
  by (simp add: pollOnce_def Let_def split: prod.splits)

text \<open>
  C5 (the code at the failing input). \<open>pollOnce\<close> passes a fresh, zero \<open>statusData\<close>
  to \<open>Retrieve\<close>. When the request fails and leaves it as it is, \<open>pollOnce\<close>
  increments the counter and calls \<open>result\<close>, which dereferences the nil
  \<open>data.InProgress\<close>: the call panics, for every sub-poller and every error, and
  yields neither \<open>ErrHTTP\<close> nor \<open>Failed\<close>.
\<close>

theorem C5_pollOnce_http_error_panics:
  "pollOnce isTransient sub statusData_zero (Some e) =
     (sub\<lparr>httpErrorCount := httpErrorCount sub + 1\<rparr>, Inl NilPointerDereference)"
  by (simp add: pollOnce_def Let_def result_def statusData_zero_def)

text \<open>
  How \<open>updateStatus\<close> reports a cluster in its first observed cycle: with its own state
  when that is at most \<open>ResolveNotIntended\<close>, with \<open>ResolveInProgress\<close> above.
\<close>

lemma updateStatus_first_cycle:
  "status (updateStatus (exampleFirstCyclePoller st)) =
     (if ResolveTERMINALS < st then ResolveInProgress else st)"
  by (simp add: updateStatus_def exampleFirstCyclePoller_def examplePollerState_def)

lemma AList_update_set:
  "(k, v) \<in> set (AList.update a b xs) \<Longrightarrow> (k, v) \<in> set xs \<or> (k, v) = (a, b)"
  by (induction xs) (auto split: if_splits)

text \<open>No call of \<open>nextSubStatus\<close> that returns sets a \<open>LastCycle\<close> flag.\<close>

lemma nextSubStatus_never_sets_LastCycle:
  assumes "nextSubStatus sp update = Inr sp'"
    and "list_all (\<lambda>(u, s). \<not> LastCycle s) (statePerCluster sp)"
  shows "list_all (\<lambda>(u, s). \<not> LastCycle s) (statePerCluster sp')"
proof -
  have "\<not> LastCycle v" if kv: "(k, v) \<in> set (statePerCluster sp')" for k v
  proof (cases "map_of (statePerCluster sp) (url update)")
    case None
    with assms(1) have "statePerCluster sp' =
        AList.update (url update) \<lparr>LastResult = update, LastCycle = False\<rparr> (statePerCluster sp)"
      by (auto simp: nextSubStatus_def)
    with kv AList_update_set have "(k, v) \<in> set (statePerCluster sp) \<or>
        (k, v) = (url update, \<lparr>LastResult = update, LastCycle = False\<rparr>)"
      by metis
    then show ?thesis using assms(2) by (auto simp: list_all_iff)
  next
    case (Some ls)
    with assms(1) have "statePerCluster sp' =
        AList.update (url update) (ls\<lparr>LastResult := update\<rparr>) (statePerCluster sp)"
      by (auto simp: nextSubStatus_def split: if_splits)
    with kv AList_update_set have "(k, v) \<in> set (statePerCluster sp) \<or>
        (k, v) = (url update, ls\<lparr>LastResult := update\<rparr>)"
      by metis
    moreover have "(url update, ls) \<in> set (statePerCluster sp)"
      using Some by (rule map_of_SomeD)
    ultimately show ?thesis using assms(2) by (auto simp: list_all_iff)
  qed
  then show ?thesis by (auto simp: list_all_iff)
qed

text \<open>
  C4 (the code at the failing input). When a cluster has reported a resolveID and then
  reports a different one, which is the change that ends the first observed cycle,
  \<open>nextSubStatus\<close> panics: it returns no poller in which \<open>LastCycle\<close> is true.
\<close>

theorem C4_nextSubStatus_panics_on_resolveID_change:
  "map_of (statePerCluster sp) (url update) = Some lastState \<Longrightarrow>
   resolveID (LastResult lastState) \<noteq> [] \<Longrightarrow>
   resolveID (LastResult lastState) \<noteq> resolveID update \<Longrightarrow>
   nextSubStatus sp update = Inl (Panic ''LAST_CYCLE_W00t'')"
  by (simp add: nextSubStatus_def)

theorem C4_nextSubStatus_panics_on_resolveID_change_witness:
  "nextSubStatus (exampleFirstCyclePoller ResolveInProgress)
     \<lparr>url = ''http://c1.example'', stat = ResolveComplete, err = None, resolveID = ''t2''\<rparr> =
   Inl (Panic ''LAST_CYCLE_W00t'')"
  using C4_nextSubStatus_panics_on_resolveID_change
    [of "exampleFirstCyclePoller ResolveInProgress"
        "\<lparr>url = ''http://c1.example'', stat = ResolveComplete, err = None, resolveID = ''t2''\<rparr>"
        "examplePollerState ''http://c1.example'' ResolveInProgress ''t1'' False"]
  by (simp add: exampleFirstCyclePoller_def examplePollerState_def)

section \<open>Properties of the comparison of deployments\<close>

lemma owners_compared_as_sets:
  "(fcard A = fcard B \<and> filter (\<lambda>x. x |\<notin>| B) (sorted_list_of_fset A) = []) =
   (A = (B::string fset))"
proof
  assume h: "fcard A = fcard B \<and> filter (\<lambda>x. x |\<notin>| B) (sorted_list_of_fset A) = []"
  then have "\<forall>x\<in>set (sorted_list_of_fset A). x |\<in>| B"
    by (simp add: filter_empty_conv)
  then have "A |\<subseteq>| B" by auto
  with h show "A = B" by (simp add: fcard_seteq)
next
  assume "A = B"
  then show "fcard A = fcard B \<and> filter (\<lambda>x. x |\<notin>| B) (sorted_list_of_fset A) = []"
    by (simp add: filter_empty_conv)
qed

lemma DeployConfig_Diff_empty:
  "(snd (DeployConfig_Diff c o') = []) =
   (Resources c = Resources o' \<and> Env c = Env o' \<and> NumInstances c = NumInstances o' \<and>
    Startup c = Startup o' \<and> Volumes c = Volumes o' \<and>
    SingularityRequestID c = SingularityRequestID o')"
  by (simp add: DeployConfig_Diff_def Let_def)

lemma Equal_on_equal_IDs:
  assumes "ID d = ID o'"
  shows "Equal d o' = Inr
     (ClusterName d = ClusterName o' \<and> SourceID d = SourceID o' \<and> Flavor d = Flavor o' \<and>
      Kind d = Kind o' \<and> Owners d = Owners o' \<and>
      (Resources (DeployConfig d) = Resources (DeployConfig o') \<and>
       Env (DeployConfig d) = Env (DeployConfig o') \<and>
       NumInstances (DeployConfig d) = NumInstances (DeployConfig o') \<and>
       Startup (DeployConfig d) = Startup (DeployConfig o') \<and>
       Volumes (DeployConfig d) = Volumes (DeployConfig o') \<and>
       SingularityRequestID (DeployConfig d) = SingularityRequestID (DeployConfig o')) \<and>
      (Kind d = ManifestKindScheduled \<longrightarrow>
         Schedule (DeployConfig d) = Schedule (DeployConfig o')))"
proof -
  have sid: "SourceID_Equal (SourceID d) (SourceID o') = (SourceID d = SourceID o')"
    by (auto simp: SourceID_Equal_def)
  have own: "(fcard (Owners d) = fcard (Owners o') \<and>
      filter (\<lambda>x. x |\<notin>| Owners o') (sorted_list_of_fset (Owners d)) = []) =
      (Owners d = Owners o')"
    by (rule owners_compared_as_sets)
  show ?thesis
    using assms own
    by (auto simp: Equal_def Diff_def Let_def sid DeployConfig_Diff_empty)
qed

lemma ID_Schedule_update:
  "ID (d\<lparr>DeployConfig := (DeployConfig d)\<lparr>Schedule := s\<rparr>\<rparr>) = ID d"
  by (simp add: ID_def Deployment_ManifestID_def)

text \<open>
  C3. For deployments \<open>d\<close> and \<open>o\<close> with the same ID, \<open>d.Equal(o)\<close> returns true if and
  only if they agree on cluster name, source id, flavor, kind, owners (as sets) and deploy
  config (resources, env, number of instances, startup, volumes, singularity request id),
  and, when \<open>d\<close> is of kind Scheduled, on the schedule. So a Scheduled deployment and
  one that differs from it only in the schedule are unequal, and a Service deployment and
  one that differs from it only in the schedule are equal.
\<close>

theorem C3_Equal_compares_listed_fields:
  "(ID d = ID o' \<longrightarrow>
      Equal d o' = Inr
        (ClusterName d = ClusterName o' \<and> SourceID d = SourceID o' \<and> Flavor d = Flavor o' \<and>
         Kind d = Kind o' \<and> Owners d = Owners o' \<and>
         (Resources (DeployConfig d) = Resources (DeployConfig o') \<and>
          Env (DeployConfig d) = Env (DeployConfig o') \<and>
          NumInstances (DeployConfig d) = NumInstances (DeployConfig o') \<and>
          Startup (DeployConfig d) = Startup (DeployConfig o') \<and>
          Volumes (DeployConfig d) = Volumes (DeployConfig o') \<and>
          SingularityRequestID (DeployConfig d) = SingularityRequestID (DeployConfig o')) \<and>
         (Kind d = ManifestKindScheduled \<longrightarrow>
            Schedule (DeployConfig d) = Schedule (DeployConfig o')))) \<and>
   (Kind d = ManifestKindScheduled \<and> s \<noteq> Schedule (DeployConfig d) \<longrightarrow>
      Equal d (d\<lparr>DeployConfig := (DeployConfig d)\<lparr>Schedule := s\<rparr>\<rparr>) = Inr False) \<and>
   (Kind d = ManifestKindService \<and> s \<noteq> Schedule (DeployConfig d) \<longrightarrow>
      Equal d (d\<lparr>DeployConfig := (DeployConfig d)\<lparr>Schedule := s\<rparr>\<rparr>) = Inr True)"
proof -
  have a: "ID d = ID (d\<lparr>DeployConfig := (DeployConfig d)\<lparr>Schedule := s\<rparr>\<rparr>)"
    by (simp add: ID_Schedule_update)
  have b: "Kind d = ManifestKindScheduled \<and> s \<noteq> Schedule (DeployConfig d) \<longrightarrow>
      Equal d (d\<lparr>DeployConfig := (DeployConfig d)\<lparr>Schedule := s\<rparr>\<rparr>) = Inr False"
    by (auto simp: Equal_on_equal_IDs[OF a])
  have c: "Kind d = ManifestKindService \<and> s \<noteq> Schedule (DeployConfig d) \<longrightarrow>
      Equal d (d\<lparr>DeployConfig := (DeployConfig d)\<lparr>Schedule := s\<rparr>\<rparr>) = Inr True"
    by (auto simp: Equal_on_equal_IDs[OF a])
  show ?thesis
    using b c Equal_on_equal_IDs[of d o'] by blast
qed

theorem C3_Equal_compares_listed_fields_witness:
  "ID (exampleDeployment ''1.0.0'') = ID (exampleDeployment ''1.1.0'') \<and>
   Equal (exampleDeployment ''1.0.0'') (exampleDeployment ''1.1.0'') = Inr False \<and>
   Equal (exampleDeployment ''1.0.0'') (exampleDeployment ''1.0.0'') = Inr True \<and>
   Kind (exampleDeployment ''1.0.0'') = ManifestKindService \<and>
   Equal (exampleDeployment ''1.0.0'')
     ((exampleDeployment ''1.0.0'')
        \<lparr>DeployConfig := (DeployConfig (exampleDeployment ''1.0.0''))\<lparr>Schedule := ''@daily''\<rparr>\<rparr>) =
     Inr True \<and>
   Equal ((exampleDeployment ''1.0.0'')\<lparr>Kind := ManifestKindScheduled\<rparr>)
     (((exampleDeployment ''1.0.0'')\<lparr>Kind := ManifestKindScheduled\<rparr>)
        \<lparr>DeployConfig := (DeployConfig (exampleDeployment ''1.0.0''))\<lparr>Schedule := ''@daily''\<rparr>\<rparr>) =
     Inr False"
  using C3_Equal_compares_listed_fields
          [of "exampleDeployment ''1.0.0''" "exampleDeployment ''1.1.0''" "''@daily''"]
        C3_Equal_compares_listed_fields
          [of "exampleDeployment ''1.0.0''" "exampleDeployment ''1.0.0''" "''@daily''"]
        C3_Equal_compares_listed_fields
          [of "(exampleDeployment ''1.0.0'')\<lparr>Kind := ManifestKindScheduled\<rparr>"
              "exampleDeployment ''1.0.0''" "''@daily''"]
  by (simp add: exampleDeployment_def exampleConfig_def ID_def Deployment_ManifestID_def)

text \<open>
  C10. \<open>Deployment.Diff\<close>, and with it \<open>Deployment.Equal\<close>, returns for every pair of
  deployments with the same ID and panics for every pair with different IDs; there are
  such pairs.
\<close>

theorem C10_Diff_returns_only_on_equal_IDs:
  "(ID d = ID o' \<longrightarrow> (\<exists>r. Diff d o' = Inr r) \<and> (\<exists>b. Equal d o' = Inr b)) \<and>
   (ID d \<noteq> ID o' \<longrightarrow>
      Diff d o' = Inl (Panic ''attempt to compare deployment %q with %q'') \<and>
      Equal d o' = Inl (Panic ''attempt to compare deployment %q with %q'')) \<and>
   (\<exists>d1 o1. ID d1 \<noteq> ID o1 \<and> (\<exists>p. Diff d1 o1 = Inl p) \<and> (\<exists>p. Equal d1 o1 = Inl p))"
proof -
  have ne: "ID (exampleDeployment []) \<noteq> ID ((exampleDeployment [])\<lparr>ClusterName := ''c2''\<rparr>)"
    by (simp add: ID_def exampleDeployment_def)
  have "\<exists>d1 o1. ID d1 \<noteq> ID o1 \<and> (\<exists>p. Diff d1 o1 = Inl p) \<and> (\<exists>p. Equal d1 o1 = Inl p)"
    using ne by (intro exI conjI) (assumption, simp_all add: Diff_def Equal_def)
  then show ?thesis
    by (simp add: Diff_def Equal_def Let_def)
qed

theorem C10_Diff_returns_only_on_equal_IDs_witness:
  "ID (exampleDeployment ''1.0.0'') = ID (exampleDeployment ''1.1.0'') \<and>
   (\<exists>r. Diff (exampleDeployment ''1.0.0'') (exampleDeployment ''1.1.0'') = Inr r) \<and>
   (\<exists>b. Equal (exampleDeployment ''1.0.0'') (exampleDeployment ''1.1.0'') = Inr b) \<and>
   ID (exampleDeployment ''1.0.0'') \<noteq> ID ((exampleDeployment ''1.0.0'')\<lparr>ClusterName := ''c2''\<rparr>) \<and>
   Diff (exampleDeployment ''1.0.0'') ((exampleDeployment ''1.0.0'')\<lparr>ClusterName := ''c2''\<rparr>) =
     Inl (Panic ''attempt to compare deployment %q with %q'') \<and>
   Equal (exampleDeployment ''1.0.0'') ((exampleDeployment ''1.0.0'')\<lparr>ClusterName := ''c2''\<rparr>) =
     Inl (Panic ''attempt to compare deployment %q with %q'')"
  using C10_Diff_returns_only_on_equal_IDs
          [of "exampleDeployment ''1.0.0''" "exampleDeployment ''1.1.0''"]
        C10_Diff_returns_only_on_equal_IDs
          [of "exampleDeployment ''1.0.0''" "(exampleDeployment ''1.0.0'')\<lparr>ClusterName := ''c2''\<rparr>"]
  by (simp add: exampleDeployment_def ID_def Deployment_ManifestID_def)

section \<open>Properties of the resolve recorder\<close>

lemma causesOf_append: "causesOf (xs @ ys) = causesOf xs @ causesOf ys"
  by (induction xs) (auto split: option.splits)

lemma causesOf_empty: "(causesOf rezs = []) = list_all (\<lambda>rez. Error rez = None) rezs"
  by (induction rezs) (auto split: option.splits)

lemma recorder_inv_init: "recorder_inv prog (NewResolveRecorder now intended prog)"
  by (simp add: recorder_inv_def NewResolveRecorder_def newRecorder_def carried_def
        frame_sends_def err_after_frame_def)

lemma recorder_inv_drain_step: "recorder_inv prog s \<Longrightarrow> recorder_inv prog (drain_step s)"
  unfolding recorder_inv_def drain_step_def carried_def frame_sends_def err_after_frame_def
    recordResolution_def Let_def
  by (cases "drain s"; cases "rr_Log (recorder s)"; cases "frame s")
     (auto simp: causesOf_append split: option.splits)

lemma recorder_inv_runner_step:
  "recorder_inv prog s \<Longrightarrow> recorder_inv prog (runner_step now s)"
  unfolding recorder_inv_def runner_step_def carried_def frame_sends_def err_after_frame_def
    recordFinished_def sendLog_def doneWithError_def setPhase_def earlyExit_def Let_def
  by (cases "runner s"; cases "frame s"; cases "todo s")
     (auto split: option.splits list.splits runner_op.splits prod.splits if_splits)

lemma recorder_inv_step: "recorder_inv prog s \<Longrightarrow> recorder_inv prog (step t s)"
  by (cases t) (simp_all add: recorder_inv_runner_step recorder_inv_drain_step)

lemma recorder_inv_run: "recorder_inv prog s \<Longrightarrow> recorder_inv prog (run sched s)"
  by (induction sched arbitrary: s) (simp_all add: recorder_inv_step)

lemma run_append: "run (xs @ ys) s = run ys (run xs s)"
  by (induction xs arbitrary: s) simp_all

lemma recorder_progress:
  assumes "recorder_inv prog s" and "\<not> rr_finished (recorder s)"
  shows "\<exists>t. work (step t s) < work s"
proof (cases "drain s = Receiving \<and> rr_Log (recorder s) = [] \<and> \<not> rr_LogClosed (recorder s)")
  case False
  then have "work (step Drain s) < work s"
    using assms
    by (cases "drain s"; cases "rr_Log (recorder s)")
       (auto simp: work_def drain_step_def recorder_inv_def recordResolution_def Let_def
             split: option.splits)
  then show ?thesis by blast
next
  case True
  then have r: "runner s = Running" using assms by (simp add: recorder_inv_def)
  have "work (step (Runner []) s) < work s"
    using True r
    by (cases "frame s"; cases "todo s")
       (auto simp: work_def runner_step_def sendLog_def LogCapacity_def doneWithError_def
             setPhase_def earlyExit_def
             split: option.splits list.splits runner_op.splits prod.splits)
  then show ?thesis by blast
qed

lemma recorder_terminates:
  "recorder_inv prog s \<Longrightarrow> \<exists>sched. rr_finished (recorder (run sched s))"
proof (induction "work s" arbitrary: s rule: less_induct)
  case less
  show ?case
  proof (cases "rr_finished (recorder s)")
    case True
    then have "rr_finished (recorder (run [] s))" by simp
    then show ?thesis by blast
  next
    case False
    then obtain t where t: "work (step t s) < work s"
      using recorder_progress[OF less.prems] by blast
    have "recorder_inv prog (step t s)"
      using less.prems by (rule recorder_inv_step)
    then obtain sched where "rr_finished (recorder (run sched (step t s)))"
      using less.hyps[OF t] by blast
    then have "rr_finished (recorder (run (t # sched) s))" by simp
    then show ?thesis by blast
  qed
qed

lemma recorder_finished_state:
  assumes "recorder_inv prog s" and "rr_finished (recorder s)"
  shows "runner s \<noteq> Running \<and> drain s = Drained \<and> rr_Log (recorder s) = [] \<and>
         Log (rr_status (recorder s)) = fst (runner_records None prog) \<and>
         Causes (Errs (rr_status (recorder s))) = causesOf (fst (runner_records None prog)) \<and>
         rr_err (recorder s) = snd (runner_records None prog)"
  using assms
  by (auto simp: recorder_inv_def carried_def frame_sends_def err_after_frame_def)

lemma Wait_finished: "(Wait rr = None) = (\<not> rr_finished rr)"
  by (simp add: Wait_def)

text \<open>
  C6. Take any runner function, any schedule of the two goroutines of a recorder, and the
  state that the schedule reaches. If \<open>Wait\<close> returns there, then the runner function
  has returned and the drain goroutine has left its loop, and the result is the one of
  the specification: the error that the runner recorded if there is one, else the errors
  accumulated from the resolutions that the runner sent, nil only when there is neither.
  And \<open>Wait\<close> does return: every schedule has a continuation after which it returns.
\<close>

theorem C6_Wait_returns_recorded_error:
  "(Wait (recorder (run sched (NewResolveRecorder now intended prog))) = Some r \<longrightarrow>
      runner (run sched (NewResolveRecorder now intended prog)) \<noteq> Running \<and>
      drain (run sched (NewResolveRecorder now intended prog)) = Drained \<and>
      r = spec_Wait_result prog \<and>
      (r = None) =
        (snd (runner_records None prog) = None \<and>
         list_all (\<lambda>rez. Error rez = None) (fst (runner_records None prog)))) \<and>
   (\<exists>more. Wait (recorder (run (sched @ more) (NewResolveRecorder now intended prog))) \<noteq> None)"
proof -
  let ?s = "run sched (NewResolveRecorder now intended prog)"
  have inv: "recorder_inv prog ?s"
    by (rule recorder_inv_run) (rule recorder_inv_init)
  have safe: "Wait (recorder ?s) = Some r \<longrightarrow>
      runner ?s \<noteq> Running \<and> drain ?s = Drained \<and> r = spec_Wait_result prog \<and>
      (r = None) =
        (snd (runner_records None prog) = None \<and>
         list_all (\<lambda>rez. Error rez = None) (fst (runner_records None prog)))"
  proof
    assume w: "Wait (recorder ?s) = Some r"
    then have fin: "rr_finished (recorder ?s)"
      by (simp add: Wait_def split: if_splits)
    note st = recorder_finished_state[OF inv fin]
    have r1: "r = (case rr_err (recorder ?s) of
                     Some e \<Rightarrow> Some e
                   | None \<Rightarrow> ResolveStatus_Err (rr_status (recorder ?s)))"
      using w fin by (simp add: Wait_def)
    have r2: "ResolveStatus_Err (rr_status (recorder ?s)) =
        (case causesOf (fst (runner_records None prog)) of
           [] \<Rightarrow> None
         | c # cs \<Rightarrow> Some (ResolveErrorsError (c # cs)))"
      using st by (simp add: ResolveStatus_Err_def split: list.splits)
    have r: "r = spec_Wait_result prog"
      unfolding r1 r2 spec_Wait_result_def using st by simp
    have "(spec_Wait_result prog = None) =
        (snd (runner_records None prog) = None \<and>
         list_all (\<lambda>rez. Error rez = None) (fst (runner_records None prog)))"
      by (auto simp: spec_Wait_result_def causesOf_empty[symmetric]
            split: option.splits list.splits)
    with r st show "runner ?s \<noteq> Running \<and> drain ?s = Drained \<and> r = spec_Wait_result prog \<and>
      (r = None) =
        (snd (runner_records None prog) = None \<and>
         list_all (\<lambda>rez. Error rez = None) (fst (runner_records None prog)))"
      by simp
  qed
  obtain more where "rr_finished (recorder (run more ?s))"
    using recorder_terminates[OF inv] by blast
  then have "Wait (recorder (run (sched @ more) (NewResolveRecorder now intended prog))) \<noteq> None"
    by (simp add: run_append Wait_finished)
  then have live: "\<exists>more.
      Wait (recorder (run (sched @ more) (NewResolveRecorder now intended prog))) \<noteq> None"
    by blast
  show ?thesis using safe live by blast
qed

lemma exampleRunner_run:
  "Wait (recorder (run exampleSchedule (NewResolveRecorder ''t0'' [] exampleRunner))) =
   Some (Some (ResolveErrorsError [ErrorWrapper (Some (ErrorWrapper (Some exampleError)))]))"
  by (simp add: exampleSchedule_def exampleRunner_def NewResolveRecorder_def newRecorder_def
        runner_step_def drain_step_def earlyExit_def setPhase_def sendLog_def LogCapacity_def
        recordResolution_def recordFinished_def exampleFailedResolution_def Wait_def
        ResolveStatus_Err_def Let_def)

theorem C6_Wait_returns_recorded_error_witness:
  "Wait (recorder (run exampleSchedule (NewResolveRecorder ''t0'' [] exampleRunner))) =
     Some (Some (ResolveErrorsError [ErrorWrapper (Some (ErrorWrapper (Some exampleError)))])) \<and>
   runner (run exampleSchedule (NewResolveRecorder ''t0'' [] exampleRunner)) \<noteq> Running \<and>
   drain (run exampleSchedule (NewResolveRecorder ''t0'' [] exampleRunner)) = Drained \<and>
   spec_Wait_result exampleRunner =
     Some (ResolveErrorsError [ErrorWrapper (Some (ErrorWrapper (Some exampleError)))])"
  using C6_Wait_returns_recorded_error
    [of exampleSchedule "''t0''" "[]" exampleRunner
        "Some (ResolveErrorsError [ErrorWrapper (Some (ErrorWrapper (Some exampleError)))])"]
  by (simp add: exampleRunner_run)

lemma phase_inv_init: "phase_inv prog (NewResolveRecorder now intended prog)"
  by (simp add: phase_inv_def NewResolveRecorder_def newRecorder_def err_after_frame_def)

lemma phase_inv_drain_step: "phase_inv prog s \<Longrightarrow> phase_inv prog (drain_step s)"
  unfolding phase_inv_def drain_step_def err_after_frame_def recordResolution_def Let_def
    PhaseOf_def
  by (cases "drain s"; cases "rr_Log (recorder s)"; cases "frame s")
     (auto split: option.splits runner_stage.splits)

lemma phase_inv_runner_step: "phase_inv prog s \<Longrightarrow> phase_inv prog (runner_step now s)"
  unfolding phase_inv_def runner_step_def err_after_frame_def PhaseOf_def phase_at_return_def
    recordFinished_def sendLog_def doneWithError_def setPhase_def earlyExit_def Let_def
  by (cases "runner s"; cases "frame s"; cases "todo s")
     (auto split: option.splits list.splits runner_op.splits prod.splits if_splits)

lemma phase_inv_run: "phase_inv prog s \<Longrightarrow> phase_inv prog (run sched s)"
proof (induction sched arbitrary: s)
  case Nil
  then show ?case by simp
next
  case (Cons t ts)
  have "phase_inv prog (step t s)"
    using Cons.prems by (cases t) (simp_all add: phase_inv_runner_step phase_inv_drain_step)
  then show ?case using Cons.IH by simp
qed

lemma runner_records_Some: "snd (runner_records (Some e) ops) = Some e"
proof (induction ops)
  case Nil
  show ?case by simp
next
  case (Cons op ops)
  then show ?case by (cases op) (auto split: prod.splits)
qed

lemma failed_phase_records:
  "(failed_phase prog = None) = (snd (runner_records None prog) = None)"
proof (induction prog)
  case Nil
  show ?case by simp
next
  case (Cons op ops)
  show ?case
    using Cons.IH
    by (cases op) (auto simp: runner_records_Some case_prod_beta split: option.splits)
qed

lemma exampleFailingRunner_run:
  "PhaseOf (recorder (run exampleFailingSchedule
      (NewResolveRecorder ''t0'' [] exampleFailingRunner))) = ''resolving''"
  "runner (run exampleFailingSchedule
      (NewResolveRecorder ''t0'' [] exampleFailingRunner)) = Returned"
  "rr_err (recorder (run exampleFailingSchedule
      (NewResolveRecorder ''t0'' [] exampleFailingRunner))) = Some exampleError"
  by (simp_all add: exampleFailingSchedule_def exampleFailingRunner_def NewResolveRecorder_def
        newRecorder_def runner_step_def drain_step_def earlyExit_def setPhase_def
        doneWithError_def recordFinished_def PhaseOf_def Let_def)

text \<open>
  C7 (as stated, refuted). The claim: the phase is set to "failed" when the runner returns
  an error. A runner function whose phase "resolving" returns an error, run to the end
  of both goroutines, leaves the recorder with that error and with the phase
  "resolving".
\<close>

theorem C7_phase_failed_counterexample:
  "runner (run exampleFailingSchedule
      (NewResolveRecorder ''t0'' [] exampleFailingRunner)) = Returned \<and>
   rr_err (recorder (run exampleFailingSchedule
      (NewResolveRecorder ''t0'' [] exampleFailingRunner))) = Some exampleError \<and>
   PhaseOf (recorder (run exampleFailingSchedule
      (NewResolveRecorder ''t0'' [] exampleFailingRunner))) = ''resolving'' \<and>
   PhaseOf (recorder (run exampleFailingSchedule
      (NewResolveRecorder ''t0'' [] exampleFailingRunner))) \<noteq> ''failed''"
  by (simp add: exampleFailingRunner_run)

text \<open>
  C7 (amended). When the runner goroutine has made its last write, the phase is
  "finished" if the runner function recorded no error, and else the name of the phase
  whose function returned the error: the recorder writes no phase "failed". The last
  write sets "finished" exactly when no error is recorded, and once an error is recorded
  every further \<open>performPhase\<close> is a no-op: it neither sets the phase nor runs its
  function.
\<close>

theorem C7_phase_transitions:
  "(runner (run sched (NewResolveRecorder now intended prog)) = Returned \<longrightarrow>
      PhaseOf (recorder (run sched (NewResolveRecorder now intended prog))) =
        (case failed_phase prog of None \<Rightarrow> ''finished'' | Some name \<Rightarrow> name)) \<and>
   (failed_phase prog = None) = (snd (runner_records None prog) = None) \<and>
   (rr_err rr = None \<longrightarrow> PhaseOf (recordFinished now' rr) = ''finished'') \<and>
   (rr_err rr \<noteq> None \<longrightarrow> PhaseOf (recordFinished now' rr) = PhaseOf rr) \<and>
   (rr_err rr \<noteq> None \<longrightarrow> performPhase name f rr = rr)"
proof -
  let ?s = "run sched (NewResolveRecorder now intended prog)"
  have "phase_inv prog ?s"
    by (rule phase_inv_run) (rule phase_inv_init)
  then have a: "runner ?s = Returned \<longrightarrow> PhaseOf (recorder ?s) =
        (case failed_phase prog of None \<Rightarrow> ''finished'' | Some name \<Rightarrow> name)"
    by (auto simp: phase_inv_def phase_at_return_def)
  have b: "(rr_err rr = None \<longrightarrow> PhaseOf (recordFinished now' rr) = ''finished'') \<and>
   (rr_err rr \<noteq> None \<longrightarrow> PhaseOf (recordFinished now' rr) = PhaseOf rr) \<and>
   (rr_err rr \<noteq> None \<longrightarrow> performPhase name f rr = rr)"
    by (auto simp: recordFinished_def PhaseOf_def performPhase_def earlyExit_def Let_def)
  show ?thesis using a b failed_phase_records[of prog] by blast
qed

theorem C7_phase_transitions_witness:
  "runner (run exampleSchedule (NewResolveRecorder ''t0'' [] exampleRunner)) = Returned \<and>
   PhaseOf (recorder (run exampleSchedule (NewResolveRecorder ''t0'' [] exampleRunner))) =
     ''finished'' \<and>
   runner (run exampleFailingSchedule
      (NewResolveRecorder ''t0'' [] exampleFailingRunner)) = Returned \<and>
   PhaseOf (recorder (run exampleFailingSchedule
      (NewResolveRecorder ''t0'' [] exampleFailingRunner))) = ''resolving'' \<and>
   performPhase ''condensing errors'' (\<lambda>rr. (None, setPhase ''unreachable'' rr))
     (recorder (run exampleFailingSchedule
        (NewResolveRecorder ''t0'' [] exampleFailingRunner))) =
   recorder (run exampleFailingSchedule (NewResolveRecorder ''t0'' [] exampleFailingRunner))"
proof -
  have r1: "runner (run exampleSchedule (NewResolveRecorder ''t0'' [] exampleRunner)) = Returned"
    by (simp add: exampleSchedule_def exampleRunner_def NewResolveRecorder_def newRecorder_def
        runner_step_def drain_step_def earlyExit_def setPhase_def sendLog_def LogCapacity_def
        recordResolution_def recordFinished_def exampleFailedResolution_def Let_def)
  show ?thesis
    using r1 exampleFailingRunner_run(2,3)
      C7_phase_transitions
        [of exampleSchedule "''t0''" "[]" exampleRunner
            "recorder (run exampleFailingSchedule
               (NewResolveRecorder ''t0'' [] exampleFailingRunner))"
            "''t9''" "''condensing errors''" "\<lambda>rr. (None, setPhase ''unreachable'' rr)"]
      C7_phase_transitions
        [of exampleFailingSchedule "''t0''" "[]" exampleFailingRunner
            "recorder (run exampleFailingSchedule
               (NewResolveRecorder ''t0'' [] exampleFailingRunner))"
            "''t9''" "''condensing errors''" "\<lambda>rr. (None, setPhase ''unreachable'' rr)"]
    by (simp add: exampleRunner_def exampleFailingRunner_def)
qed

section \<open>Properties of the snapshots of a recorder\<close>

lemma CurrentStatus_refs:
  "IntendedRef (fst (CurrentStatus h st)) = IntendedRef st"
  "LogRef (fst (CurrentStatus h st)) = \<lparr>base = nextAddr h, len = len (LogRef st)\<rparr>"
  "CausesRef (fst (CurrentStatus h st)) = \<lparr>base = nextAddr h + 1, len = len (CausesRef st)\<rparr>"
  "StartedRef (fst (CurrentStatus h st)) = StartedRef st"
  "FinishedRef (fst (CurrentStatus h st)) = FinishedRef st"
  "PhaseRef (fst (CurrentStatus h st)) = PhaseRef st"
  by (simp_all add: CurrentStatus_def Let_def)

lemma CurrentStatus_store:
  "nextAddr (snd (CurrentStatus h st)) = nextAddr h + 2"
  "intendedArrays (snd (CurrentStatus h st)) = intendedArrays h"
  "deployments (snd (CurrentStatus h st)) = deployments h"
  by (simp_all add: CurrentStatus_def Let_def)

lemma CurrentStatus_arrays:
  assumes "base (LogRef st) < nextAddr h" and "base (CausesRef st) < nextAddr h"
  shows "logArrays (snd (CurrentStatus h st)) =
     (logArrays h)(nextAddr h := take (len (LogRef st)) (logArrays h (base (LogRef st))))"
    and "causeArrays (snd (CurrentStatus h st)) =
     (causeArrays h)(nextAddr h + 1 :=
        take (len (CausesRef st)) (causeArrays h (base (CausesRef st))))"
  using assms
  by (simp_all add: CurrentStatus_def Let_def makeArray_def copySlice_def)

lemma CurrentStatus_arrays_old:
  "a < nextAddr h \<Longrightarrow> logArrays (snd (CurrentStatus h st)) a = logArrays h a"
  "a < nextAddr h \<Longrightarrow> causeArrays (snd (CurrentStatus h st)) a = causeArrays h a"
  by (simp_all add: CurrentStatus_def Let_def makeArray_def copySlice_def)

lemma CurrentStatus_value:
  assumes "allocated h st"
  shows "statusValue (snd (CurrentStatus h st)) (fst (CurrentStatus h st)) = statusValue h st"
    and "statusValue (snd (CurrentStatus h st)) st = statusValue h st"
  using assms
  by (simp_all add: statusValue_def CurrentStatus_refs CurrentStatus_store
        CurrentStatus_arrays readSlice_def allocated_def)

lemma CurrentStatus_apart:
  assumes "allocated h st"
  shows "apart (snd (CurrentStatus h st)) (fst (CurrentStatus h st)) st"
    and "allocated (snd (CurrentStatus h st)) st"
  using assms
  by (simp_all add: apart_def allocated_def CurrentStatus_refs CurrentStatus_store
        CurrentStatus_arrays)

lemma CurrentStatus_keeps:
  assumes "base (LogRef snap) < nextAddr h" and "base (CausesRef snap) < nextAddr h"
  shows "statusValue (snd (CurrentStatus h st)) snap = statusValue h snap"
  using assms
  by (simp add: statusValue_def CurrentStatus_store CurrentStatus_arrays_old readSlice_def)

lemma apply_write_keeps:
  assumes "apart h snap st" and "allocated h st"
  shows "apart (fst (apply_write w (h, st))) snap (snd (apply_write w (h, st))) \<and>
         allocated (fst (apply_write w (h, st))) (snd (apply_write w (h, st))) \<and>
         statusValue (fst (apply_write w (h, st))) snap = statusValue h snap"
proof (cases w)
  case (WriteResolution rez)
  show ?thesis
    using assms unfolding WriteResolution
    by (cases "Error rez")
       (auto simp: writeResolution_def appendSlice_def apart_def allocated_def statusValue_def
          readSlice_def Let_def)
next
  case (WritePhase p)
  then show ?thesis
    using assms by (simp add: apart_def allocated_def)
next
  case (WriteFinished now noErr)
  then show ?thesis
    using assms by (simp add: apart_def allocated_def)
qed

lemma apply_writes_keeps:
  "apart h snap st \<Longrightarrow> allocated h st \<Longrightarrow>
   statusValue (fst (apply_writes ws (h, st))) snap = statusValue h snap"
proof (induction ws arbitrary: h st)
  case Nil
  show ?case by simp
next
  case (Cons w ws)
  obtain h1 st1 where w: "apply_write w (h, st) = (h1, st1)"
    by (cases "apply_write w (h, st)")
  have k: "apart h1 snap st1 \<and> allocated h1 st1 \<and> statusValue h1 snap = statusValue h snap"
    using apply_write_keeps[OF Cons.prems, of w] w by simp
  then have "statusValue (fst (apply_writes ws (h1, st1))) snap = statusValue h1 snap"
    using Cons.IH by blast
  then show ?case using w k by simp
qed

lemma exampleStatusRef_snapshot:
  "allocated exampleStore exampleStatusRef"
  "fst (CurrentStatus exampleStore exampleStatusRef) =
     exampleStatusRef\<lparr>LogRef := \<lparr>base = 4, len = 1\<rparr>, CausesRef := \<lparr>base = 5, len = 1\<rparr>\<rparr>"
  "deployments (snd (CurrentStatus exampleStore exampleStatusRef)) = deployments exampleStore"
  "intendedArrays (snd (CurrentStatus exampleStore exampleStatusRef)) =
     intendedArrays exampleStore"
  by (simp_all add: allocated_def CurrentStatus_def Let_def exampleStore_def
        exampleStatusRef_def)

text \<open>
  C9 (as stated, refuted). The claim: a snapshot shares no mutable structure with the
  status of the recorder, the contents of \<open>Intended\<close> included. The snapshot's
  \<open>Intended\<close> is the recorder's slice, with the same backing array and the same
  pointers: an assignment through the pointer that the recorder holds changes what the
  snapshot, returned before, shows as intended.
\<close>

theorem C9_snapshot_shares_Intended_counterexample:
  "IntendedRef (fst (CurrentStatus exampleStore exampleStatusRef)) =
     IntendedRef exampleStatusRef \<and>
   readSlice (IntendedRef exampleStatusRef) (intendedArrays exampleStore) = [0] \<and>
   Intended (statusValue (snd (CurrentStatus exampleStore exampleStatusRef))
              (fst (CurrentStatus exampleStore exampleStatusRef))) =
     [exampleDeployment ''1.1.0''] \<and>
   Intended (statusValue
              (storeDeployment 0 (exampleDeployment ''2.0.0'')
                 (snd (CurrentStatus exampleStore exampleStatusRef)))
              (fst (CurrentStatus exampleStore exampleStatusRef))) =
     [exampleDeployment ''2.0.0'']"
  by (simp add: exampleStatusRef_snapshot statusValue_def storeDeployment_def readSlice_def)
     (simp add: exampleStore_def exampleStatusRef_def)

text \<open>
  C9 (amended). \<open>CurrentStatus\<close> returns a copy of the status struct that is deep-equal
  to the current status and leaves the status as it is. The snapshot's \<open>Log\<close> and
  \<open>Errs.Causes\<close> are new arrays, not those of the recorder nor those of another
  snapshot, and its \<open>Intended\<close> is the recorder's own slice. No later write of the
  recorder to its status (a recorded resolution, a phase, the last write) and no later
  call of \<open>CurrentStatus\<close> changes the value of a snapshot returned before, and a
  second call without a write between returns a deep-equal snapshot.
\<close>

theorem C9_CurrentStatus_copies_Log_and_Causes:
  "allocated h st \<longrightarrow>
     statusValue (snd (CurrentStatus h st)) (fst (CurrentStatus h st)) = statusValue h st \<and>
     statusValue (snd (CurrentStatus h st)) st = statusValue h st \<and>
     base (LogRef (fst (CurrentStatus h st))) \<noteq> base (LogRef st) \<and>
     base (CausesRef (fst (CurrentStatus h st))) \<noteq> base (CausesRef st) \<and>
     IntendedRef (fst (CurrentStatus h st)) = IntendedRef st \<and>
     statusValue (fst (apply_writes ws (snd (CurrentStatus h st), st))) (fst (CurrentStatus h st)) =
       statusValue (snd (CurrentStatus h st)) (fst (CurrentStatus h st)) \<and>
     statusValue (snd (CurrentStatus (snd (CurrentStatus h st)) st)) (fst (CurrentStatus h st)) =
       statusValue (snd (CurrentStatus h st)) (fst (CurrentStatus h st)) \<and>
     statusValue (snd (CurrentStatus (snd (CurrentStatus h st)) st))
         (fst (CurrentStatus (snd (CurrentStatus h st)) st)) =
       statusValue (snd (CurrentStatus h st)) (fst (CurrentStatus h st)) \<and>
     base (LogRef (fst (CurrentStatus (snd (CurrentStatus h st)) st))) \<noteq>
       base (LogRef (fst (CurrentStatus h st))) \<and>
     base (CausesRef (fst (CurrentStatus (snd (CurrentStatus h st)) st))) \<noteq>
       base (CausesRef (fst (CurrentStatus h st)))"
proof
  assume a: "allocated h st"
  let ?snap = "fst (CurrentStatus h st)" and ?h = "snd (CurrentStatus h st)"
  note ap = CurrentStatus_apart[OF a]
  have v1: "statusValue ?h ?snap = statusValue h st" and v2: "statusValue ?h st = statusValue h st"
    using CurrentStatus_value[OF a] by simp_all
  have d: "base (LogRef ?snap) \<noteq> base (LogRef st) \<and>
           base (CausesRef ?snap) \<noteq> base (CausesRef st)"
    using ap(1) by (simp add: apart_def)
  have w: "statusValue (fst (apply_writes ws (?h, st))) ?snap = statusValue ?h ?snap"
    using ap by (rule apply_writes_keeps)
  have k: "statusValue (snd (CurrentStatus ?h st)) ?snap = statusValue ?h ?snap"
    using ap(1) by (intro CurrentStatus_keeps) (simp_all add: apart_def)
  have v3: "statusValue (snd (CurrentStatus ?h st)) (fst (CurrentStatus ?h st)) =
            statusValue ?h ?snap"
    using CurrentStatus_value(1)[OF ap(2)] v1 v2 by simp
  have d2: "base (LogRef (fst (CurrentStatus ?h st))) \<noteq> base (LogRef ?snap) \<and>
            base (CausesRef (fst (CurrentStatus ?h st))) \<noteq> base (CausesRef ?snap)"
    by (simp add: CurrentStatus_refs CurrentStatus_store)
  show "statusValue ?h ?snap = statusValue h st \<and>
     statusValue ?h st = statusValue h st \<and>
     base (LogRef ?snap) \<noteq> base (LogRef st) \<and>
     base (CausesRef ?snap) \<noteq> base (CausesRef st) \<and>
     IntendedRef ?snap = IntendedRef st \<and>
     statusValue (fst (apply_writes ws (?h, st))) ?snap = statusValue ?h ?snap \<and>
     statusValue (snd (CurrentStatus ?h st)) ?snap = statusValue ?h ?snap \<and>
     statusValue (snd (CurrentStatus ?h st)) (fst (CurrentStatus ?h st)) =
       statusValue ?h ?snap \<and>
     base (LogRef (fst (CurrentStatus ?h st))) \<noteq> base (LogRef ?snap) \<and>
     base (CausesRef (fst (CurrentStatus ?h st))) \<noteq> base (CausesRef ?snap)"
    using v1 v2 d w k v3 d2 by (simp add: CurrentStatus_refs)
qed

lemma exampleWrites_status:
  "Log (statusValue (fst (apply_writes exampleWrites
          (snd (CurrentStatus exampleStore exampleStatusRef), exampleStatusRef)))
        (snd (apply_writes exampleWrites
          (snd (CurrentStatus exampleStore exampleStatusRef), exampleStatusRef)))) =
     [exampleFailedResolution, exampleFailedResolution]"
  "base (LogRef (snd (apply_writes exampleWrites
          (snd (CurrentStatus exampleStore exampleStatusRef), exampleStatusRef)))) =
     base (LogRef exampleStatusRef)"
  by (simp_all add: exampleWrites_def writeResolution_def appendSlice_def CurrentStatus_def
        makeArray_def copySlice_def Let_def statusValue_def readSlice_def exampleStore_def
        exampleStatusRef_def exampleFailedResolution_def)

theorem C9_CurrentStatus_copies_Log_and_Causes_witness:
  "allocated exampleStore exampleStatusRef \<and>
   Log (statusValue exampleStore exampleStatusRef) = [exampleFailedResolution] \<and>
   Log (statusValue (fst (apply_writes exampleWrites
          (snd (CurrentStatus exampleStore exampleStatusRef), exampleStatusRef)))
        (snd (apply_writes exampleWrites
          (snd (CurrentStatus exampleStore exampleStatusRef), exampleStatusRef)))) =
     [exampleFailedResolution, exampleFailedResolution] \<and>
   base (LogRef (snd (apply_writes exampleWrites
          (snd (CurrentStatus exampleStore exampleStatusRef), exampleStatusRef)))) =
     base (LogRef exampleStatusRef) \<and>
   statusValue (fst (apply_writes exampleWrites
          (snd (CurrentStatus exampleStore exampleStatusRef), exampleStatusRef)))
        (fst (CurrentStatus exampleStore exampleStatusRef)) =
     statusValue exampleStore exampleStatusRef"
proof -
  have l: "Log (statusValue exampleStore exampleStatusRef) = [exampleFailedResolution]"
    by (simp add: statusValue_def readSlice_def exampleStore_def exampleStatusRef_def)
  show ?thesis
    using C9_CurrentStatus_copies_Log_and_Causes [of exampleStore exampleStatusRef exampleWrites]
    by (simp add: exampleStatusRef_snapshot(1) exampleWrites_status l)
qed

end
